theory Spec2Isabelle
  imports Main "HOL-Library.Word"
begin

section \<open>The parachain writer of the relayer (relayer/chain/parachain/writer.go)\<close>

text \<open>
  The writer receives batches of messages from the inbound channel \<open>wr.messages\<close>,
  submits a transaction to the light client bridge contract for the BEEFY commitments
  whose status asks for one, and reports a commitment whose initial transaction was
  sent on the outbound channel \<open>wr.beefy\<close>.

  The embedding is by explicit state passing. The Go code talks to three things it does
  not own: the inbound channel together with the context, the contract binding with the
  chain behind it, and the message builders of package \<open>relayer/parachain\<close>. They are
  modelled as follows.
  \<^item> What the \<open>select\<close> of \<open>writeLoop\<close> and the \<open>range\<close> of \<open>onDone\<close> observe is a list of
    events, in the order in which they are observed. A loop that has used up the list
    without returning is still running (blocked on its channel): the result says so.
  \<^item> The contract binding and the builders are parameters. A call of the binding takes
    the state of the destination chain and returns the new one with its result, so
    that a binding may fail at one call and succeed at the next.
  \<^item> The log and the outbound channel are lists that grow at the end. A send on
    \<open>wr.beefy\<close> is taken to complete (the observer receives what is sent).
\<close>

subsection \<open>Data\<close>

type_synonym hash = "256 word"
type_synonym address = "160 word"

text \<open>Go's \<open>error\<close> values: those made by \<open>fmt.Errorf\<close> (the builders and the binding make
  theirs the same way) and the two a \<open>context.Context\<close> reports from \<open>Err()\<close> once it is
  done.\<close>

datatype error = Errorf string | Canceled | DeadlineExceeded

text \<open>The status of a commitment. The type is declared in package \<open>relayer/parachain\<close>,
  an integer type; the four constants are the ones the writer names, and \<open>OtherStatus n\<close>
  stands for every other value of the type.\<close>

datatype status =
    CommitmentWitnessed
  | InitialVerificationTxSent
  | InitialVerificationTxConfirmed
  | ReadyToComplete
  | OtherStatus nat

text \<open>\<open>parachain.BeefyCommitmentInfo\<close>: the two fields the writer touches, and the rest of
  the commitment (validator addresses, signed commitment), which only the builders
  read, as \<open>Payload\<close>.\<close>

record 'p BeefyCommitmentInfo =
  Status :: status
  Payload :: 'p
  InitialVerificationTxHash :: hash

text \<open>\<open>chain.Message\<close> is an empty interface: a value is a \<open>BeefyCommitmentInfo\<close> or has
  some other dynamic type.\<close>

datatype 'p message = Beefy "'p BeefyCommitmentInfo" | OtherMessage

text \<open>\<open>types.Transaction\<close>, of which the writer reads \<open>Hash()\<close>.\<close>

record transaction =
  Hash :: hash

record TransactOpts =
  From :: address
  Signer :: "address \<Rightarrow> transaction \<Rightarrow> error + transaction"
  GasLimit :: "64 word"

text \<open>\<open>lightclientbridge.Contract\<close>: the two calls the writer makes. \<open>'i\<close> and \<open>'f\<close> are the
  messages the builders return (the call takes their fields), \<open>'c\<close> the state of the
  destination chain.\<close>

record ('i, 'f, 'c) Contract =
  NewSignatureCommitment ::
    "TransactOpts \<Rightarrow> 'i \<Rightarrow> 'c \<Rightarrow> (error + transaction) \<times> 'c"
  CompleteSignatureCommitment ::
    "TransactOpts \<Rightarrow> 'f \<Rightarrow> 'c \<Rightarrow> (error + transaction) \<times> 'c"

text \<open>\<open>ethereum.Connection\<close>: the key pair, as the address and the private key.\<close>

record Connection =
  CommonAddress :: address
  PrivateKey :: "256 word"

datatype log_entry =
    LogInfo string
  | LogDebug string
  | LogError error string
  | LogInfoTx hash string

text \<open>The writer. \<open>config\<close> is the one setting read,
  \<open>config.Ethereum.Contracts.RelayBridgeLightClient\<close>; \<open>beefy\<close> is what has been sent on
  the outbound channel and \<open>log\<close> what has been logged, oldest first; \<open>ethereum\<close> is the
  state of the chain behind \<open>conn\<close>. The inbound channel \<open>messages\<close> is the event list
  given to \<open>writeLoop\<close>.\<close>

record ('p, 'i, 'f, 'c) Writer =
  config :: string
  conn :: Connection
  contracts :: "string \<rightharpoonup> ('i, 'f, 'c) Contract"
  beefy :: "'p BeefyCommitmentInfo list"
  log :: "log_entry list"
  ethereum :: 'c

text \<open>What the writer calls outside this file: the two builders (methods of
  \<open>BeefyCommitmentInfo\<close>), the constructor of the binding, \<open>common.HexToAddress\<close> and
  \<open>types.SignTx\<close> (with the Homestead signer).\<close>

record ('p, 'i, 'f, 'c) Externals =
  BuildNewSignatureCommitmentMessage :: "'p BeefyCommitmentInfo \<Rightarrow> error + 'i"
  BuildCompleteSignatureCommitmentMessage :: "'p BeefyCommitmentInfo \<Rightarrow> error + 'f"
  NewContract :: "address \<Rightarrow> Connection \<Rightarrow> error + ('i, 'f, 'c) Contract"
  HexToAddress :: "string \<Rightarrow> address"
  SignTx :: "transaction \<Rightarrow> 256 word \<Rightarrow> error + transaction"

text \<open>The tasks started on the error group.\<close>

datatype task = WriteLoopTask

text \<open>What a receive on \<open>wr.messages\<close> yields: a batch that was sent, or, once the channel
  is closed, the zero value at once.\<close>

datatype 'p recv = Batch "'p message list" | ChanClosed

text \<open>One observation of the writer: \<open>ctx.Done()\<close> is ready and taken (with what \<open>ctx.Err()\<close>
  reports from then on), or a receive on \<open>wr.messages\<close>.\<close>

datatype 'p event = CtxDone error | Receive "'p recv"

text \<open>Has the loop returned, and what?\<close>

datatype outcome = Running | Returned error

subsection \<open>The code\<close>

definition LightClientBridgeContractID :: string where
  "LightClientBridgeContractID = ''lightclientbridge''"

definition logf :: "('p, 'i, 'f, 'c) Writer \<Rightarrow> log_entry \<Rightarrow> ('p, 'i, 'f, 'c) Writer" where
  "logf wr entry = wr\<lparr>log := log wr @ [entry]\<rparr>"

definition signerFn ::
  "('p, 'i, 'f, 'c) Externals \<Rightarrow> Connection \<Rightarrow> address \<Rightarrow> transaction \<Rightarrow> error + transaction"
where
  "signerFn ext cn a tx =
     (case SignTx ext tx (PrivateKey cn) of
        Inl err \<Rightarrow> Inl err
      | Inr signedTx \<Rightarrow> Inr signedTx)"

text \<open>The \<open>bind.TransactOpts\<close> literal both submissions build.\<close>

definition options :: "('p, 'i, 'f, 'c) Externals \<Rightarrow> Connection \<Rightarrow> TransactOpts" where
  "options ext cn =
     \<lparr>From = CommonAddress cn, Signer = signerFn ext cn, GasLimit = 5000000\<rparr>"

definition WriteNewSignatureCommitment ::
  "('p, 'i, 'f, 'c) Externals \<Rightarrow> ('p, 'i, 'f, 'c) Writer \<Rightarrow> 'p BeefyCommitmentInfo
     \<Rightarrow> error option \<times> ('p, 'i, 'f, 'c) Writer"
where
  "WriteNewSignatureCommitment ext wr beefyInfo =
     (let wr1 = logf wr (LogInfo ''Parachain writer received msg'') in
      case BuildNewSignatureCommitmentMessage ext beefyInfo of
        Inl err \<Rightarrow> (Some err, wr1)
      | Inr msg \<Rightarrow>
          (case contracts wr1 LightClientBridgeContractID of
             None \<Rightarrow> (Some (Errorf ''Unknown contract''), wr1)
           | Some contract \<Rightarrow>
               (case NewSignatureCommitment contract (options ext (conn wr1)) msg (ethereum wr1) of
                  (Inl err, eth) \<Rightarrow>
                    (Some err,
                     logf (wr1\<lparr>ethereum := eth\<rparr>) (LogError err ''Failed to submit transaction''))
                | (Inr tx, eth) \<Rightarrow>
                    (let wr2 = logf (wr1\<lparr>ethereum := eth\<rparr>)
                                 (LogInfoTx (Hash tx) ''New Signature Commitment transaction submitted'');
                         sent = beefyInfo\<lparr>Status := InitialVerificationTxSent,
                                          InitialVerificationTxHash := Hash tx\<rparr>
                     in (None, wr2\<lparr>beefy := beefy wr2 @ [sent]\<rparr>)))))"

definition WriteCompleteSignatureCommitment ::
  "('p, 'i, 'f, 'c) Externals \<Rightarrow> ('p, 'i, 'f, 'c) Writer \<Rightarrow> 'p BeefyCommitmentInfo
     \<Rightarrow> error option \<times> ('p, 'i, 'f, 'c) Writer"
where
  "WriteCompleteSignatureCommitment ext wr beefyInfo =
     (let wr1 = logf wr (LogInfo ''Parachain writer received msg'') in
      case BuildCompleteSignatureCommitmentMessage ext beefyInfo of
        Inl err \<Rightarrow> (Some err, wr1)
      | Inr msg \<Rightarrow>
          (case contracts wr1 LightClientBridgeContractID of
             None \<Rightarrow> (Some (Errorf ''Unknown contract''), wr1)
           | Some contract \<Rightarrow>
               (case CompleteSignatureCommitment contract (options ext (conn wr1)) msg (ethereum wr1) of
                  (Inl err, eth) \<Rightarrow>
                    (Some err,
                     logf (wr1\<lparr>ethereum := eth\<rparr>) (LogError err ''Failed to submit transaction''))
                | (Inr tx, eth) \<Rightarrow>
                    (None,
                     logf (wr1\<lparr>ethereum := eth\<rparr>)
                       (LogInfoTx (Hash tx) ''Complete Signature Commitment transaction submitted'')))))"

text \<open>The \<open>switch beefyInfo.Status\<close> of \<open>writeLoop\<close>: what is done for one commitment. An
  error of a submission is logged and dropped.\<close>

definition switchStatus ::
  "('p, 'i, 'f, 'c) Externals \<Rightarrow> ('p, 'i, 'f, 'c) Writer \<Rightarrow> 'p BeefyCommitmentInfo
     \<Rightarrow> ('p, 'i, 'f, 'c) Writer"
where
  "switchStatus ext wr beefyInfo =
     (case Status beefyInfo of
        CommitmentWitnessed \<Rightarrow>
          (case WriteNewSignatureCommitment ext wr beefyInfo of
             (Some err, wr') \<Rightarrow> logf wr' (LogError err ''Error submitting message to ethereum'')
           | (None, wr') \<Rightarrow> wr')
      | InitialVerificationTxSent \<Rightarrow> wr
      | InitialVerificationTxConfirmed \<Rightarrow> wr
      | ReadyToComplete \<Rightarrow>
          (case WriteCompleteSignatureCommitment ext wr beefyInfo of
             (Some err, wr') \<Rightarrow> logf wr' (LogError err ''Error submitting message to ethereum'')
           | (None, wr') \<Rightarrow> wr')
      | OtherStatus n \<Rightarrow> logf wr (LogInfo ''Invalid beefy commitment status''))"

text \<open>The \<open>for _, msg := range msgs\<close> of \<open>writeLoop\<close>: \<open>Some err\<close> when the body returns from
  \<open>writeLoop\<close>, \<open>None\<close> when the batch is through.\<close>

fun rangeMsgs ::
  "('p, 'i, 'f, 'c) Externals \<Rightarrow> ('p, 'i, 'f, 'c) Writer \<Rightarrow> 'p message list
     \<Rightarrow> error option \<times> ('p, 'i, 'f, 'c) Writer"
where
  "rangeMsgs ext wr [] = (None, wr)"
| "rangeMsgs ext wr (msg # msgs) =
     (case msg of
        OtherMessage \<Rightarrow> (Some (Errorf ''Invalid message''), wr)
      | Beefy beefyInfo \<Rightarrow> rangeMsgs ext (switchStatus ext wr beefyInfo) msgs)"

text \<open>The \<open>for range wr.messages\<close> of \<open>onDone\<close>. It waits on the channel alone, so that the
  context being done is nothing it observes.\<close>

fun drain ::
  "error \<Rightarrow> ('p, 'i, 'f, 'c) Writer \<Rightarrow> 'p event list \<Rightarrow> outcome \<times> ('p, 'i, 'f, 'c) Writer"
where
  "drain ctxErr wr [] = (Running, wr)"
| "drain ctxErr wr (Receive (Batch msgs) # es) =
     drain ctxErr (logf wr (LogDebug ''Discarded message'')) es"
| "drain ctxErr wr (Receive ChanClosed # es) = (Returned ctxErr, wr)"
| "drain ctxErr wr (CtxDone err # es) = drain ctxErr wr es"

definition onDone ::
  "error \<Rightarrow> ('p, 'i, 'f, 'c) Writer \<Rightarrow> 'p event list \<Rightarrow> outcome \<times> ('p, 'i, 'f, 'c) Writer"
where
  "onDone ctxErr wr es = drain ctxErr (logf wr (LogInfo ''Shutting down writer...'')) es"

text \<open>A receive on the closed channel gives the nil slice: \<open>msgs := <-wr.messages\<close> has no
  second result to tell it from a batch.\<close>

fun received :: "'p recv \<Rightarrow> 'p message list" where
  "received (Batch msgs) = msgs"
| "received ChanClosed = []"

fun writeLoop ::
  "('p, 'i, 'f, 'c) Externals \<Rightarrow> ('p, 'i, 'f, 'c) Writer \<Rightarrow> 'p event list
     \<Rightarrow> outcome \<times> ('p, 'i, 'f, 'c) Writer"
where
  "writeLoop ext wr [] = (Running, wr)"
| "writeLoop ext wr (CtxDone err # es) = onDone err wr es"
| "writeLoop ext wr (Receive r # es) =
     (case rangeMsgs ext wr (received r) of
        (Some err, wr') \<Rightarrow> (Returned err, wr')
      | (None, wr') \<Rightarrow> writeLoop ext wr' es)"

text \<open>\<open>Start\<close>: \<open>eg\<close> is the list of the tasks started on the error group.\<close>

definition Start ::
  "('p, 'i, 'f, 'c) Externals \<Rightarrow> ('p, 'i, 'f, 'c) Writer \<Rightarrow> task list
     \<Rightarrow> error option \<times> ('p, 'i, 'f, 'c) Writer \<times> task list"
where
  "Start ext wr eg =
     (case NewContract ext (HexToAddress ext (config wr)) (conn wr) of
        Inl err \<Rightarrow> (Some err, wr, eg)
      | Inr contract \<Rightarrow>
          (None,
           wr\<lparr>contracts := (contracts wr)(LightClientBridgeContractID \<mapsto> contract)\<rparr>,
           eg @ [WriteLoopTask]))"


subsection \<open>A test double\<close>

text \<open>A binding over a chain that counts the calls it has received. The message is a
  number; the call fails on \<open>0\<close> and otherwise returns a transaction whose hash is the
  number.\<close>

definition stubContract :: "(nat, nat, nat) Contract" where
  "stubContract =
     \<lparr>NewSignatureCommitment = (\<lambda>opts msg eth.
        if msg = 0 then (Inl (Errorf ''execution reverted''), Suc eth)
        else (Inr \<lparr>Hash = of_nat msg\<rparr>, Suc eth)),
      CompleteSignatureCommitment = (\<lambda>opts msg eth.
        if msg = 0 then (Inl (Errorf ''execution reverted''), Suc eth)
        else (Inr \<lparr>Hash = of_nat msg\<rparr>, Suc eth))\<rparr>"

text \<open>\<open>common.HexToAddress\<close> of go-ethereum, for the test double. The conversion has no
  error result. \<open>FromHex\<close> drops a \<open>0x\<close> prefix, puts a \<open>0\<close> before an odd number of
  characters, and \<open>Hex2Bytes\<close> keeps the bytes decoded before the first character that is
  not a hexadecimal digit, dropping the error of the decoder. \<open>BytesToAddress\<close> takes the
  last twenty bytes, right-aligned.\<close>

definition hexDigit :: "char \<Rightarrow> nat option" where
  "hexDigit c =
     map_of
       [(CHR ''0'', 0), (CHR ''1'', 1), (CHR ''2'', 2), (CHR ''3'', 3), (CHR ''4'', 4),
        (CHR ''5'', 5), (CHR ''6'', 6), (CHR ''7'', 7), (CHR ''8'', 8), (CHR ''9'', 9),
        (CHR ''a'', 10), (CHR ''b'', 11), (CHR ''c'', 12), (CHR ''d'', 13), (CHR ''e'', 14),
        (CHR ''f'', 15), (CHR ''A'', 10), (CHR ''B'', 11), (CHR ''C'', 12), (CHR ''D'', 13),
        (CHR ''E'', 14), (CHR ''F'', 15)] c"

fun Hex2Bytes :: "string \<Rightarrow> 8 word list" where
  "Hex2Bytes (p # q # s) =
     (case hexDigit p of
        None \<Rightarrow> []
      | Some a \<Rightarrow>
          (case hexDigit q of
             None \<Rightarrow> []
           | Some b \<Rightarrow> of_nat (16 * a + b) # Hex2Bytes s))"
| "Hex2Bytes [p] = []"
| "Hex2Bytes [] = []"

fun has0xPrefix :: "string \<Rightarrow> bool" where
  "has0xPrefix (a # b # s) = (a = CHR ''0'' \<and> (b = CHR ''x'' \<or> b = CHR ''X''))"
| "has0xPrefix s = False"

definition FromHex :: "string \<Rightarrow> 8 word list" where
  "FromHex s =
     (let s1 = (if has0xPrefix s then drop 2 s else s);
          s2 = (if odd (length s1) then CHR ''0'' # s1 else s1)
      in Hex2Bytes s2)"

definition BytesToAddress :: "8 word list \<Rightarrow> address" where
  "BytesToAddress b =
     (let b1 = (if 20 < length b then drop (length b - 20) b else b)
      in foldl (\<lambda>a x. a * 256 + ucast x) 0 b1)"

definition commonHexToAddress :: "string \<Rightarrow> address" where
  "commonHexToAddress s = BytesToAddress (FromHex s)"

text \<open>Builders that fail on the payload \<open>0\<close> and otherwise return the payload less one; a
  constructor of the binding that takes every address.\<close>

definition stubExt :: "(nat, nat, nat, nat) Externals" where
  "stubExt =
     \<lparr>BuildNewSignatureCommitmentMessage = (\<lambda>b.
        if Payload b = 0 then Inl (Errorf ''no signatures'') else Inr (Payload b - 1)),
      BuildCompleteSignatureCommitmentMessage = (\<lambda>b.
        if Payload b = 0 then Inl (Errorf ''no signatures'') else Inr (Payload b - 1)),
      NewContract = (\<lambda>a cn. Inr stubContract),
      HexToAddress = commonHexToAddress,
      SignTx = (\<lambda>tx key. Inr tx)\<rparr>"

text \<open>The same with a constructor of the binding that fails, whatever the address.\<close>

definition brokenExt :: "(nat, nat, nat, nat) Externals" where
  "brokenExt = stubExt\<lparr>NewContract := (\<lambda>a cn. Inl (Errorf ''invalid ABI''))\<rparr>"

definition stubWriter :: "(nat, nat, nat, nat) Writer" where
  "stubWriter =
     \<lparr>config = ''0x01'', conn = \<lparr>CommonAddress = 1, PrivateKey = 2\<rparr>,
      contracts = [LightClientBridgeContractID \<mapsto> stubContract],
      beefy = [], log = [], ethereum = 0\<rparr>"

text \<open>The same writer before \<open>Start\<close>: nothing in the registry.\<close>

definition newWriter :: "(nat, nat, nat, nat) Writer" where
  "newWriter = stubWriter\<lparr>contracts := Map.empty\<rparr>"

definition commitment :: "status \<Rightarrow> nat \<Rightarrow> nat BeefyCommitmentInfo" where
  "commitment s p = \<lparr>Status = s, Payload = p, InitialVerificationTxHash = 0\<rparr>"

subsection \<open>Properties\<close>


lemma logf_simps [simp]:
  "log (logf wr e) = log wr @ [e]"
  "beefy (logf wr e) = beefy wr"
  "contracts (logf wr e) = contracts wr"
  "conn (logf wr e) = conn wr"
  "config (logf wr e) = config wr"
  "ethereum (logf wr e) = ethereum wr"
  by (simp_all add: logf_def)

lemma rangeMsgs_Beefy:
  "rangeMsgs ext wr (map Beefy bs @ msgs) = rangeMsgs ext (foldl (switchStatus ext) wr bs) msgs"
  by (induction bs arbitrary: wr) simp_all

lemma rangeMsgs_invalid:
  "fst (rangeMsgs ext wr (pre @ OtherMessage # post)) = Some (Errorf ''Invalid message'')"
  by (induction pre arbitrary: wr) (simp_all split: message.splits)

lemma rangeMsgs_cut:
  "rangeMsgs ext wr (pre @ OtherMessage # post) = rangeMsgs ext wr (pre @ [OtherMessage])"
  by (induction pre arbitrary: wr) (simp_all split: message.splits)

lemma WriteNew_beefy:
  "WriteNewSignatureCommitment ext wr b = (Some err, wr') \<Longrightarrow> beefy wr' = beefy wr"
  by (auto simp: WriteNewSignatureCommitment_def Let_def split: sum.splits option.splits prod.splits)

lemma WriteComplete_beefy:
  "beefy (snd (WriteCompleteSignatureCommitment ext wr b)) = beefy wr"
  by (auto simp: WriteCompleteSignatureCommitment_def Let_def split: sum.splits option.splits prod.splits)

text \<open>
  Claim C1. A commitment with status \<open>CommitmentWitnessed\<close> for which the builder returns a
  message, the registry holds the light client bridge contract and the call
  \<open>NewSignatureCommitment\<close> returns a transaction: the writer sends exactly one record on the
  outbound channel, the commitment with status \<open>InitialVerificationTxSent\<close> and the hash of
  the returned transaction, its payload as received. The same holds of the loop run on a
  batch of this one commitment.
\<close>

theorem witnessed_success_emits:
  assumes "Status beefyInfo = CommitmentWitnessed"
    and "BuildNewSignatureCommitmentMessage ext beefyInfo = Inr msg"
    and "contracts wr LightClientBridgeContractID = Some contract"
    and "NewSignatureCommitment contract (options ext (conn wr)) msg (ethereum wr) = (Inr tx, eth)"
  shows "(let sent = beefyInfo\<lparr>Status := InitialVerificationTxSent,
                                 InitialVerificationTxHash := Hash tx\<rparr>
          in beefy (switchStatus ext wr beefyInfo) = beefy wr @ [sent]
           \<and> beefy (snd (writeLoop ext wr [Receive (Batch [Beefy beefyInfo])])) = beefy wr @ [sent]
           \<and> Status sent = InitialVerificationTxSent
           \<and> InitialVerificationTxHash sent = Hash tx
           \<and> Payload sent = Payload beefyInfo)"
  using assms
  by (simp add: switchStatus_def WriteNewSignatureCommitment_def Let_def)

text \<open>
  Claim C2. A commitment with status \<open>CommitmentWitnessed\<close> whose submission returns an
  error, whatever the step that failed: nothing is sent on the outbound channel, the
  error is logged, and the batch and the loop go on with what follows. When the
  builder succeeded and the registry has no light client bridge contract, the error is
  ``Unknown contract''. \<open>WriteNew_fails_iff\<close> below says which steps make the error.
\<close>

theorem witnessed_failure_continues:
  assumes "Status beefyInfo = CommitmentWitnessed"
    and "fst (WriteNewSignatureCommitment ext wr beefyInfo) = Some err"
  shows "beefy (switchStatus ext wr beefyInfo) = beefy wr
       \<and> last (log (switchStatus ext wr beefyInfo))
           = LogError err ''Error submitting message to ethereum''
       \<and> rangeMsgs ext wr (Beefy beefyInfo # msgs)
           = rangeMsgs ext (switchStatus ext wr beefyInfo) msgs
       \<and> writeLoop ext wr (Receive (Batch [Beefy beefyInfo]) # es)
           = writeLoop ext (switchStatus ext wr beefyInfo) es
       \<and> ((\<exists>msg. BuildNewSignatureCommitmentMessage ext beefyInfo = Inr msg)
            \<and> contracts wr LightClientBridgeContractID = None
          \<longrightarrow> err = Errorf ''Unknown contract'')"
proof -
  obtain wr' where w: "WriteNewSignatureCommitment ext wr beefyInfo = (Some err, wr')"
    using assms(2) by (cases "WriteNewSignatureCommitment ext wr beefyInfo") auto
  have sw: "switchStatus ext wr beefyInfo
              = logf wr' (LogError err ''Error submitting message to ethereum'')"
    using assms(1) w by (simp add: switchStatus_def)
  have b: "beefy wr' = beefy wr" using w by (rule WriteNew_beefy)
  have u: "(\<exists>msg. BuildNewSignatureCommitmentMessage ext beefyInfo = Inr msg)
            \<and> contracts wr LightClientBridgeContractID = None
          \<longrightarrow> err = Errorf ''Unknown contract''"
    using w by (auto simp: WriteNewSignatureCommitment_def Let_def)
  show ?thesis using sw b u by simp
qed

lemma WriteNew_fails_iff:
  "fst (WriteNewSignatureCommitment ext wr beefyInfo) \<noteq> None \<longleftrightarrow>
     (case BuildNewSignatureCommitmentMessage ext beefyInfo of
        Inl err \<Rightarrow> True
      | Inr msg \<Rightarrow>
          (case contracts wr LightClientBridgeContractID of
             None \<Rightarrow> True
           | Some contract \<Rightarrow>
               isl (fst (NewSignatureCommitment contract (options ext (conn wr)) msg (ethereum wr)))))"
  by (auto simp: WriteNewSignatureCommitment_def Let_def split: sum.splits option.splits prod.splits)

text \<open>
  Claim C3. A batch that holds a message which is not a \<open>BeefyCommitmentInfo\<close>: the loop
  returns the error ``Invalid message'', and neither the messages after it in the batch
  nor the events after the batch change anything of the result.
\<close>

theorem invalid_message_terminates:
  "fst (writeLoop ext wr (Receive (Batch (pre @ OtherMessage # post)) # es))
     = Returned (Errorf ''Invalid message'')
   \<and> writeLoop ext wr (Receive (Batch (pre @ OtherMessage # post)) # es)
     = writeLoop ext wr [Receive (Batch (pre @ [OtherMessage]))]"
proof -
  obtain wr' where r: "rangeMsgs ext wr (pre @ OtherMessage # post)
                        = (Some (Errorf ''Invalid message''), wr')"
    using rangeMsgs_invalid [of ext wr pre post]
    by (cases "rangeMsgs ext wr (pre @ OtherMessage # post)") auto
  then have "rangeMsgs ext wr (pre @ [OtherMessage]) = (Some (Errorf ''Invalid message''), wr')"
    using rangeMsgs_cut [of ext wr pre post] by simp
  with r show ?thesis by simp
qed

lemma switchStatus_registry:
  "contracts (switchStatus ext wr b) = contracts wr \<and> conn (switchStatus ext wr b) = conn wr"
  by (cases "Status b")
     (auto simp: switchStatus_def WriteNewSignatureCommitment_def
        WriteCompleteSignatureCommitment_def Let_def
        split: sum.splits option.splits prod.splits)

lemma foldl_switchStatus_registry:
  "contracts (foldl (switchStatus ext) wr bs) = contracts wr
   \<and> conn (foldl (switchStatus ext) wr bs) = conn wr"
  by (induction bs arbitrary: wr) (simp_all add: switchStatus_registry)

lemma switchStatus_emits:
  "beefy (switchStatus ext wr b) = beefy wr
   \<or> (Status b = CommitmentWitnessed
      \<and> (\<exists>h. beefy (switchStatus ext wr b)
               = beefy wr @ [b\<lparr>Status := InitialVerificationTxSent, InitialVerificationTxHash := h\<rparr>]))"
  by (cases "Status b")
     (auto simp: switchStatus_def WriteNewSignatureCommitment_def
        WriteCompleteSignatureCommitment_def Let_def
        split: sum.splits option.splits prod.splits)

lemma foldl_switchStatus_keeps:
  "\<exists>sent. beefy (foldl (switchStatus ext) wr bs) = beefy wr @ sent"
proof (induction bs arbitrary: wr)
  case Nil
  show ?case by simp
next
  case (Cons b bs)
  obtain s1 where s1: "beefy (switchStatus ext wr b) = beefy wr @ s1"
    using switchStatus_emits [of ext wr b] by auto
  obtain s2 where "beefy (foldl (switchStatus ext) (switchStatus ext wr b) bs)
                     = beefy (switchStatus ext wr b) @ s2"
    using Cons.IH [of "switchStatus ext wr b"] by blast
  with s1 have "beefy (foldl (switchStatus ext) wr (b # bs)) = beefy wr @ (s1 @ s2)"
    by simp
  then show ?case by blast
qed

lemma switchStatus_complete:
  assumes "Status b = ReadyToComplete"
    and "BuildCompleteSignatureCommitmentMessage ext b = Inr cmsg"
    and "contracts w LightClientBridgeContractID = Some contract"
  shows "ethereum (switchStatus ext w b)
           = snd (CompleteSignatureCommitment contract (options ext (conn w)) cmsg (ethereum w))"
    and "beefy (switchStatus ext w b) = beefy w"
    and "CompleteSignatureCommitment contract (options ext (conn w)) cmsg (ethereum w) = (Inr tx, eth)
         \<Longrightarrow> switchStatus ext w b
             = w\<lparr>log := log w @
                    [LogInfo ''Parachain writer received msg'',
                     LogInfoTx (Hash tx) ''Complete Signature Commitment transaction submitted''],
                  ethereum := eth\<rparr>"
  using assms
  by (auto simp: switchStatus_def WriteCompleteSignatureCommitment_def Let_def logf_def
        split: sum.splits prod.splits)

lemma switchStatus_new:
  assumes "Status b = CommitmentWitnessed"
    and "BuildNewSignatureCommitmentMessage ext b = Inr nmsg"
    and "contracts w LightClientBridgeContractID = Some contract"
  shows "ethereum (switchStatus ext w b)
           = snd (NewSignatureCommitment contract (options ext (conn w)) nmsg (ethereum w))"
    and "NewSignatureCommitment contract (options ext (conn w)) nmsg (ethereum w) = (Inr tx, eth)
         \<Longrightarrow> beefy (switchStatus ext w b)
             = beefy w @ [b\<lparr>Status := InitialVerificationTxSent,
                              InitialVerificationTxHash := Hash tx\<rparr>]"
  using assms
  by (auto simp: switchStatus_def WriteNewSignatureCommitment_def Let_def
        split: sum.splits prod.splits)

text \<open>
  Claim C10. A batch of commitments \<open>bs\<close> followed by a message of another type and then by
  anything: the loop returns ``Invalid message'' in the state reached by handling the
  commitments of \<open>bs\<close> in order, each by the \<open>switch\<close>, and what follows the message is not
  looked at. For a commitment \<open>b\<close> of \<open>bs\<close>, with \<open>w\<close> the state the commitments before it
  have left: a \<open>ReadyToComplete\<close> one that the builder accepts is submitted by
  \<open>CompleteSignatureCommitment\<close> on the chain as \<open>w\<close> has it (on success the writer
  differs by two log lines and the chain's new state), a \<open>CommitmentWitnessed\<close> one by
  \<open>NewSignatureCommitment\<close>, and on success its record is sent; the commitments after \<open>b\<close>
  start from that state, and what has been sent stays on the outbound channel.
\<close>

theorem invalid_message_not_atomic:
  "writeLoop ext wr (Receive (Batch (map Beefy bs @ OtherMessage # post)) # es)
     = (Returned (Errorf ''Invalid message''), foldl (switchStatus ext) wr bs)
   \<and> (bs = bs1 @ b # bs2 \<longrightarrow>
        (let w = foldl (switchStatus ext) wr bs1 in
           foldl (switchStatus ext) wr bs
             = foldl (switchStatus ext) (switchStatus ext w b) bs2
           \<and> (\<exists>sent. beefy (foldl (switchStatus ext) wr bs)
                       = beefy (switchStatus ext w b) @ sent)
           \<and> (Status b = ReadyToComplete
              \<and> BuildCompleteSignatureCommitmentMessage ext b = Inr cmsg
              \<and> contracts wr LightClientBridgeContractID = Some contract
              \<longrightarrow> ethereum (switchStatus ext w b)
                    = snd (CompleteSignatureCommitment contract (options ext (conn wr)) cmsg
                             (ethereum w))
                \<and> beefy (switchStatus ext w b) = beefy w
                \<and> (\<forall>tx eth.
                     CompleteSignatureCommitment contract (options ext (conn wr)) cmsg (ethereum w)
                       = (Inr tx, eth)
                     \<longrightarrow> switchStatus ext w b
                         = w\<lparr>log := log w @
                                [LogInfo ''Parachain writer received msg'',
                                 LogInfoTx (Hash tx)
                                   ''Complete Signature Commitment transaction submitted''],
                              ethereum := eth\<rparr>))
           \<and> (Status b = CommitmentWitnessed
              \<and> BuildNewSignatureCommitmentMessage ext b = Inr nmsg
              \<and> contracts wr LightClientBridgeContractID = Some contract
              \<longrightarrow> ethereum (switchStatus ext w b)
                    = snd (NewSignatureCommitment contract (options ext (conn wr)) nmsg
                             (ethereum w))
                \<and> (\<forall>tx eth.
                     NewSignatureCommitment contract (options ext (conn wr)) nmsg (ethereum w)
                       = (Inr tx, eth)
                     \<longrightarrow> beefy (switchStatus ext w b)
                         = beefy w @ [b\<lparr>Status := InitialVerificationTxSent,
                                          InitialVerificationTxHash := Hash tx\<rparr>]))))"
proof -
  define w where "w = foldl (switchStatus ext) wr bs1"
  have reg: "contracts w = contracts wr" "conn w = conn wr"
    using foldl_switchStatus_registry [of ext wr bs1] by (simp_all add: w_def)
  have loop: "writeLoop ext wr (Receive (Batch (map Beefy bs @ OtherMessage # post)) # es)
     = (Returned (Errorf ''Invalid message''), foldl (switchStatus ext) wr bs)"
    by (simp add: rangeMsgs_Beefy)
  have pos: "bs = bs1 @ b # bs2 \<Longrightarrow>
      foldl (switchStatus ext) wr bs = foldl (switchStatus ext) (switchStatus ext w b) bs2"
    by (simp add: w_def)
  have keep: "bs = bs1 @ b # bs2 \<Longrightarrow>
      \<exists>sent. beefy (foldl (switchStatus ext) wr bs) = beefy (switchStatus ext w b) @ sent"
    using foldl_switchStatus_keeps [of ext "switchStatus ext w b" bs2] by (simp add: w_def)
  have rtc: "Status b = ReadyToComplete
              \<and> BuildCompleteSignatureCommitmentMessage ext b = Inr cmsg
              \<and> contracts wr LightClientBridgeContractID = Some contract
              \<longrightarrow> ethereum (switchStatus ext w b)
                    = snd (CompleteSignatureCommitment contract (options ext (conn wr)) cmsg
                             (ethereum w))
                \<and> beefy (switchStatus ext w b) = beefy w
                \<and> (\<forall>tx eth.
                     CompleteSignatureCommitment contract (options ext (conn wr)) cmsg (ethereum w)
                       = (Inr tx, eth)
                     \<longrightarrow> switchStatus ext w b
                         = w\<lparr>log := log w @
                                [LogInfo ''Parachain writer received msg'',
                                 LogInfoTx (Hash tx)
                                   ''Complete Signature Commitment transaction submitted''],
                              ethereum := eth\<rparr>)"
    using switchStatus_complete [of b ext cmsg w contract] reg by simp
  have new: "Status b = CommitmentWitnessed
              \<and> BuildNewSignatureCommitmentMessage ext b = Inr nmsg
              \<and> contracts wr LightClientBridgeContractID = Some contract
              \<longrightarrow> ethereum (switchStatus ext w b)
                    = snd (NewSignatureCommitment contract (options ext (conn wr)) nmsg
                             (ethereum w))
                \<and> (\<forall>tx eth.
                     NewSignatureCommitment contract (options ext (conn wr)) nmsg (ethereum w)
                       = (Inr tx, eth)
                     \<longrightarrow> beefy (switchStatus ext w b)
                         = beefy w @ [b\<lparr>Status := InitialVerificationTxSent,
                                          InitialVerificationTxHash := Hash tx\<rparr>])"
    using switchStatus_new [of b ext nmsg w contract] reg by simp
  show ?thesis
    unfolding Let_def w_def [symmetric]
    using loop pos keep rtc new by blast
qed

lemma drain_batches:
  "drain err wr (map (\<lambda>msgs. Receive (Batch msgs)) bs @ es)
     = drain err (wr\<lparr>log := log wr @ replicate (length bs) (LogDebug ''Discarded message'')\<rparr>) es"
proof (induction bs arbitrary: wr)
  case Nil
  show ?case by simp
next
  case (Cons b bs)
  show ?case
    by (simp add: Cons.IH logf_def replicate_append_same)
qed

text \<open>
  Claim C4. The claim has the loop stop when the inbound channel is closed. The code does
  not do so: while the context is not done, any number of receives on the closed channel
  leaves the loop running and the writer as it was, since \<open>msgs := <-wr.messages\<close> takes
  the zero value for a batch. The \<open>range\<close> of \<open>onDone\<close>, on the same channel, does end
  when the channel is closed.
\<close>

theorem closed_channel_spins:
  "writeLoop ext wr (replicate n (Receive ChanClosed)) = (Running, wr)
   \<and> drain err wr (Receive ChanClosed # es) = (Returned err, wr)"
  by (induction n) simp_all

text \<open>
  Claim C5. Once the loop takes \<open>ctx.Done()\<close>, every batch received until the channel is
  closed is discarded (one debug line each, the writer otherwise unchanged), and when
  the channel is closed the loop returns the context's error. It does not return before.
\<close>

theorem cancellation_drains:
  "writeLoop ext wr (CtxDone err # map (\<lambda>msgs. Receive (Batch msgs)) bs @ Receive ChanClosed # es)
     = (Returned err,
        wr\<lparr>log := log wr @ LogInfo ''Shutting down writer...''
                     # replicate (length bs) (LogDebug ''Discarded message'')\<rparr>)
   \<and> fst (writeLoop ext wr (CtxDone err # map (\<lambda>msgs. Receive (Batch msgs)) bs)) = Running"
proof -
  have a: "map (\<lambda>msgs. Receive (Batch msgs)) bs = map (\<lambda>msgs. Receive (Batch msgs)) bs @ ([] :: 'a event list)"
    by simp
  have "fst (drain err (logf wr (LogInfo ''Shutting down writer...''))
               (map (\<lambda>msgs. Receive (Batch msgs)) bs @ ([] :: 'a event list))) = Running"
    by (simp only: drain_batches) simp
  then show ?thesis
    by (simp add: onDone_def drain_batches logf_def)
qed

lemma rangeMsgs_emits:
  "r \<in> set (beefy (snd (rangeMsgs ext wr msgs))) \<Longrightarrow>
     r \<in> set (beefy wr)
     \<or> (\<exists>b h. Beefy b \<in> set msgs \<and> Status b = CommitmentWitnessed
          \<and> r = b\<lparr>Status := InitialVerificationTxSent, InitialVerificationTxHash := h\<rparr>)"
proof (induction msgs arbitrary: wr)
  case Nil
  then show ?case by simp
next
  case (Cons m msgs)
  show ?case
  proof (cases m)
    case OtherMessage
    with Cons.prems show ?thesis by simp
  next
    case (Beefy b)
    with Cons.prems have "r \<in> set (beefy (snd (rangeMsgs ext (switchStatus ext wr b) msgs)))"
      by simp
    from Cons.IH [OF this] consider
        (old) "r \<in> set (beefy (switchStatus ext wr b))"
      | (new) b' h where "Beefy b' \<in> set msgs" "Status b' = CommitmentWitnessed"
          "r = b'\<lparr>Status := InitialVerificationTxSent, InitialVerificationTxHash := h\<rparr>"
      by blast
    then show ?thesis
    proof cases
      case old
      from switchStatus_emits [of ext wr b] show ?thesis
      proof
        assume "beefy (switchStatus ext wr b) = beefy wr"
        with old show ?thesis by simp
      next
        assume "Status b = CommitmentWitnessed
          \<and> (\<exists>h. beefy (switchStatus ext wr b)
                 = beefy wr @ [b\<lparr>Status := InitialVerificationTxSent, InitialVerificationTxHash := h\<rparr>])"
        then obtain h where w: "Status b = CommitmentWitnessed"
          and e: "beefy (switchStatus ext wr b)
                 = beefy wr @ [b\<lparr>Status := InitialVerificationTxSent, InitialVerificationTxHash := h\<rparr>]"
          by blast
        from old e have "r \<in> set (beefy wr)
            \<or> r = b\<lparr>Status := InitialVerificationTxSent, InitialVerificationTxHash := h\<rparr>"
          by auto
        then show ?thesis
        proof
          assume "r \<in> set (beefy wr)"
          then show ?thesis by simp
        next
          assume "r = b\<lparr>Status := InitialVerificationTxSent, InitialVerificationTxHash := h\<rparr>"
          moreover have "Beefy b \<in> set (m # msgs)" using Beefy by simp
          ultimately show ?thesis using w by blast
        qed
      qed
    next
      case new
      then have "Beefy b' \<in> set (m # msgs)" by simp
      with new show ?thesis by blast
    qed
  qed
qed

lemma drain_beefy: "beefy (snd (drain err wr es)) = beefy wr"
  by (induction err wr es rule: drain.induct) simp_all

text \<open>
  Claim C6. Whatever the loop observes, a record on the outbound channel was there
  before or is a received commitment of status \<open>CommitmentWitnessed\<close> with its status set
  to \<open>InitialVerificationTxSent\<close> and a transaction hash: no other status is ever written.
  For a commitment whose status is neither \<open>CommitmentWitnessed\<close> nor \<open>ReadyToComplete\<close>, the
  chain is left as it was, for every binding: no call is made.
\<close>

theorem status_only_advances:
  "(r \<in> set (beefy (snd (writeLoop ext wr es))) \<longrightarrow>
      r \<in> set (beefy wr)
      \<or> (\<exists>msgs b h. Receive (Batch msgs) \<in> set es \<and> Beefy b \<in> set msgs
           \<and> Status b = CommitmentWitnessed
           \<and> r = b\<lparr>Status := InitialVerificationTxSent, InitialVerificationTxHash := h\<rparr>))
   \<and> (Status beefyInfo \<noteq> CommitmentWitnessed \<and> Status beefyInfo \<noteq> ReadyToComplete \<longrightarrow>
        ethereum (switchStatus ext wr beefyInfo) = ethereum wr
        \<and> beefy (switchStatus ext wr beefyInfo) = beefy wr)"
proof -
  have loop: "r \<in> set (beefy (snd (writeLoop ext wr es))) \<Longrightarrow>
      r \<in> set (beefy wr)
      \<or> (\<exists>msgs b h. Receive (Batch msgs) \<in> set es \<and> Beefy b \<in> set msgs
           \<and> Status b = CommitmentWitnessed
           \<and> r = b\<lparr>Status := InitialVerificationTxSent, InitialVerificationTxHash := h\<rparr>)"
  proof (induction es arbitrary: wr)
    case Nil
    then show ?case by simp
  next
    case (Cons e es)
    show ?case
    proof (cases e)
      case (CtxDone err)
      with Cons.prems show ?thesis by (simp add: onDone_def drain_beefy)
    next
      case (Receive rc)
      obtain res wr' where rm: "rangeMsgs ext wr (received rc) = (res, wr')"
        by (cases "rangeMsgs ext wr (received rc)")
      have step: "x \<in> set (beefy wr') \<Longrightarrow> x \<in> set (beefy wr)
         \<or> (\<exists>b h. Beefy b \<in> set (received rc) \<and> Status b = CommitmentWitnessed
              \<and> x = b\<lparr>Status := InitialVerificationTxSent, InitialVerificationTxHash := h\<rparr>)" for x
        using rangeMsgs_emits [of x ext wr "received rc"] rm by simp
      have inbatch: "Beefy b \<in> set (received rc) \<Longrightarrow> Receive (Batch (received rc)) \<in> set (e # es)" for b
        using Receive by (cases rc) auto
      show ?thesis
      proof (cases res)
        case (Some err)
        with Cons.prems Receive rm have "r \<in> set (beefy wr')" by simp
        from step [OF this] inbatch show ?thesis by blast
      next
        case None
        with Cons.prems Receive rm have "r \<in> set (beefy (snd (writeLoop ext wr' es)))" by simp
        from Cons.IH [OF this] step [of r] inbatch show ?thesis by auto
      qed
    qed
  qed
  have other: "Status beefyInfo \<noteq> CommitmentWitnessed \<and> Status beefyInfo \<noteq> ReadyToComplete \<longrightarrow>
        ethereum (switchStatus ext wr beefyInfo) = ethereum wr
        \<and> beefy (switchStatus ext wr beefyInfo) = beefy wr"
    by (cases "Status beefyInfo") (simp_all add: switchStatus_def)
  from loop other show ?thesis by blast
qed

text \<open>
  Claim C7. For a commitment with status \<open>InitialVerificationTxSent\<close> or
  \<open>InitialVerificationTxConfirmed\<close> the writer is unchanged (no call, nothing sent, nothing
  logged) and the batch and the loop go on. For a commitment with a status the writer
  does not name, the line ``Invalid beefy commitment status'' is added to the log,
  nothing else of the writer changes, and the batch and the loop go on.
\<close>

theorem no_action_statuses:
  "(Status beefyInfo = InitialVerificationTxSent \<or> Status beefyInfo = InitialVerificationTxConfirmed
      \<longrightarrow> switchStatus ext wr beefyInfo = wr
        \<and> rangeMsgs ext wr (Beefy beefyInfo # msgs) = rangeMsgs ext wr msgs
        \<and> writeLoop ext wr (Receive (Batch [Beefy beefyInfo]) # es) = writeLoop ext wr es)
   \<and> (Status beefyInfo = OtherStatus n
      \<longrightarrow> log (switchStatus ext wr beefyInfo)
            = log wr @ [LogInfo ''Invalid beefy commitment status'']
        \<and> switchStatus ext wr beefyInfo
            = wr\<lparr>log := log wr @ [LogInfo ''Invalid beefy commitment status'']\<rparr>
        \<and> beefy (switchStatus ext wr beefyInfo) = beefy wr
        \<and> ethereum (switchStatus ext wr beefyInfo) = ethereum wr
        \<and> switchStatus ext wr beefyInfo = logf wr (LogInfo ''Invalid beefy commitment status'')
        \<and> rangeMsgs ext wr (Beefy beefyInfo # msgs)
            = rangeMsgs ext (logf wr (LogInfo ''Invalid beefy commitment status'')) msgs
        \<and> writeLoop ext wr (Receive (Batch [Beefy beefyInfo]) # es)
            = writeLoop ext (logf wr (LogInfo ''Invalid beefy commitment status'')) es)"
  by (auto simp: switchStatus_def logf_def)

text \<open>
  Claim C8. A commitment with status \<open>ReadyToComplete\<close>: nothing is sent on the outbound
  channel and the registry is unchanged, whether the submission succeeds or fails. When
  it succeeds the writer differs by two log lines and the chain's new state alone; when
  it fails the error is logged. In both cases the batch and the loop go on.
\<close>

theorem ready_to_complete_frame:
  assumes "Status beefyInfo = ReadyToComplete"
  shows "beefy (switchStatus ext wr beefyInfo) = beefy wr
       \<and> contracts (switchStatus ext wr beefyInfo) = contracts wr
       \<and> (\<forall>msg contract tx eth.
            BuildCompleteSignatureCommitmentMessage ext beefyInfo = Inr msg
            \<and> contracts wr LightClientBridgeContractID = Some contract
            \<and> CompleteSignatureCommitment contract (options ext (conn wr)) msg (ethereum wr)
                = (Inr tx, eth)
            \<longrightarrow> switchStatus ext wr beefyInfo
                = wr\<lparr>log := log wr @
                        [LogInfo ''Parachain writer received msg'',
                         LogInfoTx (Hash tx) ''Complete Signature Commitment transaction submitted''],
                     ethereum := eth\<rparr>)
       \<and> (\<forall>err. fst (WriteCompleteSignatureCommitment ext wr beefyInfo) = Some err
            \<longrightarrow> last (log (switchStatus ext wr beefyInfo))
                = LogError err ''Error submitting message to ethereum'')
       \<and> rangeMsgs ext wr (Beefy beefyInfo # msgs)
           = rangeMsgs ext (switchStatus ext wr beefyInfo) msgs
       \<and> writeLoop ext wr (Receive (Batch [Beefy beefyInfo]) # es)
           = writeLoop ext (switchStatus ext wr beefyInfo) es"
proof -
  obtain res wr' where w: "WriteCompleteSignatureCommitment ext wr beefyInfo = (res, wr')"
    by (cases "WriteCompleteSignatureCommitment ext wr beefyInfo")
  have b: "beefy wr' = beefy wr"
    using WriteComplete_beefy [of ext wr beefyInfo] w by simp
  have c: "contracts wr' = contracts wr"
    using w by (auto simp: WriteCompleteSignatureCommitment_def Let_def
                  split: sum.splits option.splits prod.splits)
  have sw: "switchStatus ext wr beefyInfo
              = (case res of Some err \<Rightarrow> logf wr' (LogError err ''Error submitting message to ethereum'')
                 | None \<Rightarrow> wr')"
    using assms w by (simp add: switchStatus_def)
  have ok: "\<forall>msg contract tx eth.
            BuildCompleteSignatureCommitmentMessage ext beefyInfo = Inr msg
            \<and> contracts wr LightClientBridgeContractID = Some contract
            \<and> CompleteSignatureCommitment contract (options ext (conn wr)) msg (ethereum wr)
                = (Inr tx, eth)
            \<longrightarrow> switchStatus ext wr beefyInfo
                = wr\<lparr>log := log wr @
                        [LogInfo ''Parachain writer received msg'',
                         LogInfoTx (Hash tx) ''Complete Signature Commitment transaction submitted''],
                     ethereum := eth\<rparr>"
    using assms
    by (auto simp: switchStatus_def WriteCompleteSignatureCommitment_def Let_def logf_def)
  show ?thesis
    using b c sw ok w by (auto split: option.splits)
qed

text \<open>
  Claim C9, as the code has it. \<open>Start\<close> returns an error exactly when the constructor of
  the binding, called on the address that \<open>HexToAddress\<close> makes of the configured string,
  fails; then the writer is unchanged and no task is started. Otherwise that one binding
  is stored in the registry under \<open>LightClientBridgeContractID\<close>, the rest of the writer
  and of the registry is unchanged, the write loop is started, and a witnessed
  commitment is submitted through that binding. The configured string counts through
  its address alone: two strings of the same address start alike, well-formed or not.
\<close>

theorem start_registers_contract:
  "(fst (Start ext wr eg) = Some err
      \<longleftrightarrow> NewContract ext (HexToAddress ext (config wr)) (conn wr) = Inl err)
   \<and> (NewContract ext (HexToAddress ext (config wr)) (conn wr) = Inl err
      \<longrightarrow> Start ext wr eg = (Some err, wr, eg))
   \<and> (NewContract ext (HexToAddress ext (config wr)) (conn wr) = Inr contract
      \<longrightarrow> (case Start ext wr eg of (res, wr', eg') \<Rightarrow>
            res = None
            \<and> wr' = wr\<lparr>contracts := (contracts wr)(LightClientBridgeContractID \<mapsto> contract)\<rparr>
            \<and> contracts wr' LightClientBridgeContractID = Some contract
            \<and> (\<forall>k. k \<noteq> LightClientBridgeContractID \<longrightarrow> contracts wr' k = contracts wr k)
            \<and> eg' = eg @ [WriteLoopTask]
            \<and> (Status b = CommitmentWitnessed
               \<and> BuildNewSignatureCommitmentMessage ext b = Inr nmsg
               \<longrightarrow> ethereum (switchStatus ext wr' b)
                     = snd (NewSignatureCommitment contract (options ext (conn wr)) nmsg
                              (ethereum wr)))))
   \<and> (HexToAddress ext s = HexToAddress ext (config wr)
      \<longrightarrow> fst (Start ext (wr\<lparr>config := s\<rparr>) eg) = fst (Start ext wr eg)
        \<and> snd (snd (Start ext (wr\<lparr>config := s\<rparr>) eg)) = snd (snd (Start ext wr eg)))"
  by (auto simp: Start_def switchStatus_def WriteNewSignatureCommitment_def Let_def
        split: sum.splits prod.splits)

text \<open>
  Claim C9 as stated fails on its example. The configured string \<open>not-an-address\<close> is not
  an address; \<open>HexToAddress\<close> makes the zero address of it, as of the empty string, and
  with a constructor that takes every address \<open>Start\<close> returns no error, stores the
  binding and starts the loop.
\<close>

theorem malformed_address_counterexample:
  "HexToAddress stubExt ''not-an-address'' = 0
   \<and> Start stubExt (newWriter\<lparr>config := ''not-an-address''\<rparr>) []
       = (None,
          newWriter\<lparr>config := ''not-an-address'',
                    contracts := [LightClientBridgeContractID \<mapsto> stubContract]\<rparr>,
          [WriteLoopTask])
   \<and> fst (Start stubExt (newWriter\<lparr>config := []\<rparr>) []) = None"
  by (simp add: Start_def stubExt_def newWriter_def stubWriter_def commonHexToAddress_def
        FromHex_def BytesToAddress_def hexDigit_def)

lemmas stub_defs = stubExt_def stubWriter_def stubContract_def newWriter_def commitment_def

theorem witnessed_success_emits_witness:
  "Status (commitment CommitmentWitnessed 7) = CommitmentWitnessed
   \<and> BuildNewSignatureCommitmentMessage stubExt (commitment CommitmentWitnessed 7) = Inr 6
   \<and> contracts stubWriter LightClientBridgeContractID = Some stubContract
   \<and> NewSignatureCommitment stubContract (options stubExt (conn stubWriter)) 6 (ethereum stubWriter)
       = (Inr \<lparr>Hash = 6\<rparr>, 1)
   \<and> beefy (switchStatus stubExt stubWriter (commitment CommitmentWitnessed 7))
       = [\<lparr>Status = InitialVerificationTxSent, Payload = 7, InitialVerificationTxHash = 6\<rparr>]
   \<and> beefy (snd (writeLoop stubExt stubWriter [Receive (Batch [Beefy (commitment CommitmentWitnessed 7)])]))
       = [\<lparr>Status = InitialVerificationTxSent, Payload = 7, InitialVerificationTxHash = 6\<rparr>]"
proof -
  have h1: "Status (commitment CommitmentWitnessed 7) = CommitmentWitnessed"
    by (simp add: commitment_def)
  have h2: "BuildNewSignatureCommitmentMessage stubExt (commitment CommitmentWitnessed 7) = Inr 6"
    by (simp add: stubExt_def commitment_def)
  have h3: "contracts stubWriter LightClientBridgeContractID = Some stubContract"
    by (simp add: stubWriter_def)
  have h4: "NewSignatureCommitment stubContract (options stubExt (conn stubWriter)) 6 (ethereum stubWriter)
       = (Inr \<lparr>Hash = 6\<rparr>, 1)"
    by (simp add: stubContract_def stubWriter_def)
  have b: "beefy stubWriter = []"
    by (simp add: stubWriter_def)
  show ?thesis
    using witnessed_success_emits [OF h1 h2 h3 h4] h1 h2 h3 h4 b
    by (simp add: Let_def commitment_def)
qed

theorem witnessed_failure_continues_witness:
  "Status (commitment CommitmentWitnessed 7) = CommitmentWitnessed
   \<and> fst (WriteNewSignatureCommitment stubExt newWriter (commitment CommitmentWitnessed 7))
       = Some (Errorf ''Unknown contract'')
   \<and> beefy (switchStatus stubExt newWriter (commitment CommitmentWitnessed 7)) = []
   \<and> last (log (switchStatus stubExt newWriter (commitment CommitmentWitnessed 7)))
       = LogError (Errorf ''Unknown contract'') ''Error submitting message to ethereum''
   \<and> writeLoop stubExt newWriter
         [Receive (Batch [Beefy (commitment CommitmentWitnessed 7)]), Receive (Batch [])]
       = writeLoop stubExt (switchStatus stubExt newWriter (commitment CommitmentWitnessed 7))
           [Receive (Batch [])]"
proof -
  have h1: "Status (commitment CommitmentWitnessed 7) = CommitmentWitnessed"
    by (simp add: commitment_def)
  have h2: "fst (WriteNewSignatureCommitment stubExt newWriter (commitment CommitmentWitnessed 7))
       = Some (Errorf ''Unknown contract'')"
    by (simp add: WriteNewSignatureCommitment_def stub_defs)
  have b: "beefy newWriter = []"
    by (simp add: newWriter_def stubWriter_def)
  show ?thesis
    using witnessed_failure_continues [OF h1 h2, of "[]" "[Receive (Batch [])]"] h1 h2 b
    by simp
qed

theorem status_only_advances_witness:
  "\<lparr>Status = InitialVerificationTxSent, Payload = 7, InitialVerificationTxHash = 6\<rparr>
     \<in> set (beefy (snd (writeLoop stubExt stubWriter
                           [Receive (Batch [Beefy (commitment CommitmentWitnessed 7)])])))
   \<and> (\<exists>msgs b h.
         Receive (Batch msgs) \<in> set [Receive (Batch [Beefy (commitment CommitmentWitnessed 7)])]
         \<and> Beefy b \<in> set msgs \<and> Status b = CommitmentWitnessed
         \<and> \<lparr>Status = InitialVerificationTxSent, Payload = 7, InitialVerificationTxHash = 6\<rparr>
             = b\<lparr>Status := InitialVerificationTxSent, InitialVerificationTxHash := h\<rparr>)
   \<and> ethereum (switchStatus stubExt stubWriter (commitment InitialVerificationTxConfirmed 7)) = 0
   \<and> beefy (switchStatus stubExt stubWriter (commitment (OtherStatus 4) 7)) = []"
proof -
  have m: "\<lparr>Status = InitialVerificationTxSent, Payload = 7, InitialVerificationTxHash = 6\<rparr>
     \<in> set (beefy (snd (writeLoop stubExt stubWriter
                           [Receive (Batch [Beefy (commitment CommitmentWitnessed 7)])])))"
    by (simp add: switchStatus_def WriteNewSignatureCommitment_def options_def logf_def stub_defs)
  have e: "ethereum stubWriter = 0" "beefy stubWriter = []"
    by (simp_all add: stubWriter_def)
  have s: "Status (commitment InitialVerificationTxConfirmed 7) = InitialVerificationTxConfirmed"
    "Status (commitment (OtherStatus 4) 7) = OtherStatus 4"
    by (simp_all add: commitment_def)
  show ?thesis
    using m e s
      status_only_advances [of
        "\<lparr>Status = InitialVerificationTxSent, Payload = 7, InitialVerificationTxHash = 6\<rparr>"
        stubExt stubWriter "[Receive (Batch [Beefy (commitment CommitmentWitnessed 7)])]"
        "commitment InitialVerificationTxConfirmed 7"]
      status_only_advances [of
        "\<lparr>Status = InitialVerificationTxSent, Payload = 7, InitialVerificationTxHash = 6\<rparr>"
        stubExt stubWriter "[Receive (Batch [Beefy (commitment CommitmentWitnessed 7)])]"
        "commitment (OtherStatus 4) 7"]
    by simp
qed

theorem ready_to_complete_frame_witness:
  "Status (commitment ReadyToComplete 1) = ReadyToComplete
   \<and> fst (WriteCompleteSignatureCommitment stubExt stubWriter (commitment ReadyToComplete 1))
       = Some (Errorf ''execution reverted'')
   \<and> beefy (switchStatus stubExt stubWriter (commitment ReadyToComplete 1)) = []
   \<and> last (log (switchStatus stubExt stubWriter (commitment ReadyToComplete 1)))
       = LogError (Errorf ''execution reverted'') ''Error submitting message to ethereum''
   \<and> writeLoop stubExt stubWriter
         [Receive (Batch [Beefy (commitment ReadyToComplete 1)]),
          Receive (Batch [Beefy (commitment CommitmentWitnessed 7)])]
       = writeLoop stubExt (switchStatus stubExt stubWriter (commitment ReadyToComplete 1))
           [Receive (Batch [Beefy (commitment CommitmentWitnessed 7)])]
   \<and> switchStatus stubExt stubWriter (commitment ReadyToComplete 7)
       = stubWriter\<lparr>log := log stubWriter @
                      [LogInfo ''Parachain writer received msg'',
                       LogInfoTx 6 ''Complete Signature Commitment transaction submitted''],
                    ethereum := 1\<rparr>"
proof -
  have h1: "Status (commitment ReadyToComplete 1) = ReadyToComplete"
    and h2: "Status (commitment ReadyToComplete 7) = ReadyToComplete"
    by (simp_all add: commitment_def)
  have f: "fst (WriteCompleteSignatureCommitment stubExt stubWriter (commitment ReadyToComplete 1))
       = Some (Errorf ''execution reverted'')"
    by (simp add: WriteCompleteSignatureCommitment_def stub_defs)
  have b: "beefy stubWriter = []"
    by (simp add: stubWriter_def)
  have ok: "BuildCompleteSignatureCommitmentMessage stubExt (commitment ReadyToComplete 7) = Inr 6
            \<and> contracts stubWriter LightClientBridgeContractID = Some stubContract
            \<and> CompleteSignatureCommitment stubContract (options stubExt (conn stubWriter)) 6
                 (ethereum stubWriter) = (Inr \<lparr>Hash = 6\<rparr>, 1)"
    by (simp add: stub_defs)
  show ?thesis
    using h1 f b ok
      ready_to_complete_frame [OF h1, of stubExt stubWriter "[]"
        "[Receive (Batch [Beefy (commitment CommitmentWitnessed 7)])]"]
      ready_to_complete_frame [OF h2, of stubExt stubWriter "[]" "[]"]
    by simp
qed

theorem invalid_message_terminates_witness:
  "writeLoop stubExt stubWriter
     [Receive (Batch [Beefy (commitment CommitmentWitnessed 0), OtherMessage,
                      Beefy (commitment CommitmentWitnessed 7)]),
      Receive (Batch [Beefy (commitment CommitmentWitnessed 9)])]
   = writeLoop stubExt stubWriter
       [Receive (Batch [Beefy (commitment CommitmentWitnessed 0), OtherMessage])]
   \<and> fst (writeLoop stubExt stubWriter
       [Receive (Batch [Beefy (commitment CommitmentWitnessed 0), OtherMessage])])
     = Returned (Errorf ''Invalid message'')"
  using invalid_message_terminates [of stubExt stubWriter
          "[Beefy (commitment CommitmentWitnessed 0)]"
          "[Beefy (commitment CommitmentWitnessed 7)]"
          "[Receive (Batch [Beefy (commitment CommitmentWitnessed 9)])]"]
        invalid_message_terminates [of stubExt stubWriter
          "[Beefy (commitment CommitmentWitnessed 0)]" "[]" "[]"]
  by simp

theorem cancellation_drains_witness:
  "writeLoop stubExt stubWriter
     [CtxDone Canceled, Receive (Batch [Beefy (commitment CommitmentWitnessed 7)]),
      Receive (Batch [OtherMessage]), Receive ChanClosed]
   = (Returned Canceled,
      stubWriter\<lparr>log := [LogInfo ''Shutting down writer...'', LogDebug ''Discarded message'',
                          LogDebug ''Discarded message'']\<rparr>)
   \<and> fst (writeLoop stubExt stubWriter
       [CtxDone Canceled, Receive (Batch [Beefy (commitment CommitmentWitnessed 7)]),
        Receive (Batch [OtherMessage])]) = Running"
proof -
  have l: "log stubWriter = []"
    by (simp add: stubWriter_def)
  show ?thesis
    using l cancellation_drains [of stubExt stubWriter Canceled
            "[[Beefy (commitment CommitmentWitnessed 7)], [OtherMessage]]" "[]"]
    by (simp add: numeral_2_eq_2)
qed

theorem no_action_statuses_witness:
  "switchStatus stubExt stubWriter (commitment InitialVerificationTxSent 7) = stubWriter
   \<and> switchStatus stubExt stubWriter (commitment InitialVerificationTxConfirmed 7) = stubWriter
   \<and> log (switchStatus stubExt stubWriter (commitment (OtherStatus 4) 7))
       = [LogInfo ''Invalid beefy commitment status'']
   \<and> beefy (switchStatus stubExt stubWriter (commitment (OtherStatus 4) 7)) = []
   \<and> ethereum (switchStatus stubExt stubWriter (commitment (OtherStatus 4) 7)) = 0
   \<and> writeLoop stubExt stubWriter [Receive (Batch [Beefy (commitment (OtherStatus 4) 7)])]
       = (Running, stubWriter\<lparr>log := [LogInfo ''Invalid beefy commitment status'']\<rparr>)"
proof -
  have s: "Status (commitment InitialVerificationTxSent 7) = InitialVerificationTxSent"
    "Status (commitment InitialVerificationTxConfirmed 7) = InitialVerificationTxConfirmed"
    "Status (commitment (OtherStatus 4) 7) = OtherStatus 4"
    by (simp_all add: commitment_def)
  have w: "log stubWriter = []" "beefy stubWriter = []" "ethereum stubWriter = 0"
    by (simp_all add: stubWriter_def)
  show ?thesis
    using s w
      no_action_statuses [of "commitment InitialVerificationTxSent 7" stubExt stubWriter "[]" "[]" 4]
      no_action_statuses [of "commitment InitialVerificationTxConfirmed 7" stubExt stubWriter "[]" "[]" 4]
      no_action_statuses [of "commitment (OtherStatus 4) 7" stubExt stubWriter "[]" "[]" 4]
    by (simp add: logf_def)
qed

theorem start_registers_contract_witness:
  "NewContract stubExt (HexToAddress stubExt (config newWriter)) (conn newWriter) = Inr stubContract
   \<and> Start stubExt newWriter []
       = (None, newWriter\<lparr>contracts := [LightClientBridgeContractID \<mapsto> stubContract]\<rparr>,
          [WriteLoopTask])
   \<and> NewContract brokenExt (HexToAddress brokenExt (config newWriter)) (conn newWriter)
       = Inl (Errorf ''invalid ABI'')
   \<and> Start brokenExt newWriter [] = (Some (Errorf ''invalid ABI''), newWriter, [])
   \<and> HexToAddress stubExt ''1'' = HexToAddress stubExt (config newWriter)
   \<and> fst (Start stubExt (newWriter\<lparr>config := ''1''\<rparr>) []) = None
   \<and> snd (snd (Start stubExt (newWriter\<lparr>config := ''1''\<rparr>) [])) = [WriteLoopTask]"
proof -
  have ok: "NewContract stubExt (HexToAddress stubExt (config newWriter)) (conn newWriter)
              = Inr stubContract"
    by (simp add: stubExt_def)
  have bad: "NewContract brokenExt (HexToAddress brokenExt (config newWriter)) (conn newWriter)
              = Inl (Errorf ''invalid ABI'')"
    by (simp add: brokenExt_def)
  have same: "HexToAddress stubExt ''1'' = HexToAddress stubExt (config newWriter)"
    by (simp add: stubExt_def newWriter_def stubWriter_def commonHexToAddress_def
          FromHex_def BytesToAddress_def hexDigit_def)
  have c: "contracts newWriter = Map.empty"
    by (simp add: newWriter_def)
  show ?thesis
    using ok bad same c
      start_registers_contract [of stubExt newWriter "[]" "Errorf ''invalid ABI''" stubContract
        "commitment CommitmentWitnessed 7" 6 "''1''"]
      start_registers_contract [of brokenExt newWriter "[]" "Errorf ''invalid ABI''" stubContract
        "commitment CommitmentWitnessed 7" 6 "''1''"]
    by (auto split: prod.splits)
qed

theorem invalid_message_not_atomic_witness:
  "writeLoop stubExt stubWriter
     [Receive (Batch [Beefy (commitment CommitmentWitnessed 7),
                      Beefy (commitment ReadyToComplete 5), OtherMessage,
                      Beefy (commitment CommitmentWitnessed 9)])]
   = (Returned (Errorf ''Invalid message''),
      stubWriter
        \<lparr>beefy := [\<lparr>Status = InitialVerificationTxSent, Payload = 7,
                     InitialVerificationTxHash = 6\<rparr>],
         log := [LogInfo ''Parachain writer received msg'',
                 LogInfoTx 6 ''New Signature Commitment transaction submitted'',
                 LogInfo ''Parachain writer received msg'',
                 LogInfoTx 4 ''Complete Signature Commitment transaction submitted''],
         ethereum := 2\<rparr>)"
proof -
  let ?w = "switchStatus stubExt stubWriter (commitment CommitmentWitnessed 7)"
  have w: "?w = stubWriter
        \<lparr>beefy := [\<lparr>Status = InitialVerificationTxSent, Payload = 7,
                     InitialVerificationTxHash = 6\<rparr>],
         log := [LogInfo ''Parachain writer received msg'',
                 LogInfoTx 6 ''New Signature Commitment transaction submitted''],
         ethereum := 1\<rparr>"
    by (simp add: switchStatus_def WriteNewSignatureCommitment_def options_def logf_def stub_defs)
  have h: "Status (commitment ReadyToComplete 5) = ReadyToComplete
     \<and> BuildCompleteSignatureCommitmentMessage stubExt (commitment ReadyToComplete 5) = Inr 4
     \<and> contracts stubWriter LightClientBridgeContractID = Some stubContract"
    by (simp add: stub_defs)
  have c: "CompleteSignatureCommitment stubContract (options stubExt (conn stubWriter)) 4 (ethereum ?w)
             = (Inr \<lparr>Hash = 4\<rparr>, 2)"
    by (simp add: w stubContract_def)
  have t: "[commitment CommitmentWitnessed 7, commitment ReadyToComplete 5]
             = [commitment CommitmentWitnessed 7] @ commitment ReadyToComplete 5 # []"
    by simp
  show ?thesis
    using h c t
      invalid_message_not_atomic [of stubExt stubWriter
        "[commitment CommitmentWitnessed 7, commitment ReadyToComplete 5]"
        "[Beefy (commitment CommitmentWitnessed 9)]" "[]"
        "[commitment CommitmentWitnessed 7]" "commitment ReadyToComplete 5" "[]"
        4 stubContract 4]
    by (simp add: Let_def w)
qed

end
